theory Spec2Isabelle
  imports Main "HOL-Library.Word"
begin

section \<open>The IGDB title-search response parser\<close>

text \<open>
  A shallow embedding of \<^verbatim>\<open>IgdbParser::ParseSearchByTitleResponse\<close>
  (\<^verbatim>\<open>src/igdb/igdb_parser.cpp\<close>). The function decodes its argument with
  \<^verbatim>\<open>nlohmann::json::parse\<close>, walks the decoded value with a range-for loop, and
  fills one \<^verbatim>\<open>SearchResult\<close> message per visited value from the members
  \<^verbatim>\<open>id\<close> and \<^verbatim>\<open>name\<close>.
\<close>

subsection \<open>The JSON value of the library\<close>

text \<open>
  \<^verbatim>\<open>nlohmann::json\<close> is a tagged union; the constructors below are the
  enumerators of its \<^verbatim>\<open>value_t\<close>. An object is a \<^verbatim>\<open>std::map\<close>
  from keys to values, written here as the list of its entries in key order.
  \<^verbatim>\<open>number_integer\<close> holds an \<^verbatim>\<open>int64_t\<close> (read with \<open>sint\<close>),
  \<^verbatim>\<open>number_unsigned\<close> a \<^verbatim>\<open>uint64_t\<close> (read with \<open>uint\<close>). The double of
  \<^verbatim>\<open>number_float\<close> is kept as its 64 bits: the parser never reads it.
\<close>

datatype json =
    Null
  | Object "(string \<times> json) list"
  | Array "json list"
  | String string
  | Boolean bool
  | NumberInteger "64 word"
  | NumberUnsigned "64 word"
  | NumberFloat "64 word"
  | Binary "8 word list"
  | Discarded

type_synonym int32 = "32 word"

fun is_discarded :: "json \<Rightarrow> bool" where
  "is_discarded Discarded = True"
| "is_discarded _ = False"

fun is_number_integer :: "json \<Rightarrow> bool" where
  "is_number_integer (NumberInteger _) = True"
| "is_number_integer (NumberUnsigned _) = True"
| "is_number_integer _ = False"

fun is_string :: "json \<Rightarrow> bool" where
  "is_string (String _) = True"
| "is_string _ = False"

text \<open>
  The values a range-for loop over a JSON value visits, in order: the elements of an
  array, the mapped values of an object, nothing for \<^verbatim>\<open>null\<close>
  (\<^verbatim>\<open>begin() == end()\<close>), and the value itself, once, for every other alternative.
\<close>

fun range_for :: "json \<Rightarrow> json list" where
  "range_for (Array xs) = xs"
| "range_for (Object m) = map snd m"
| "range_for Null = []"
| "range_for j = [j]"

text \<open>
  \<^verbatim>\<open>j.find(key)\<close>: the member of an object with that key, and \<^verbatim>\<open>end()\<close>
  (here \<open>None\<close>) when there is none or when \<open>j\<close> is not an object.
\<close>

fun json_find :: "string \<Rightarrow> json \<Rightarrow> json option" where
  "json_find key (Object m) = map_of m key"
| "json_find key _ = None"

text \<open>
  \<^verbatim>\<open>get<int>()\<close> on the two integer alternatives is a \<^verbatim>\<open>static_cast<int>\<close>
  of the 64-bit value, which keeps its low 32 bits. On the other alternatives the library
  either converts another way (a double, a boolean) or throws \<^verbatim>\<open>type_error\<close>;
  the model gives \<open>None\<close> for all of them, and the parser's outcome records that such a
  call was made.
\<close>

fun get_int :: "json \<Rightarrow> int32 option" where
  "get_int (NumberInteger v) = Some (ucast v)"
| "get_int (NumberUnsigned v) = Some (ucast v)"
| "get_int _ = None"

text \<open>
  The conversion of a JSON value to \<^verbatim>\<open>std::string\<close> (of the argument
  \<^verbatim>\<open>*it\<close> of \<^verbatim>\<open>set_title\<close>): the string of a string value, and a thrown
  \<^verbatim>\<open>type_error\<close> (here \<open>None\<close>) otherwise.
\<close>

fun get_string :: "json \<Rightarrow> string option" where
  "get_string (String s) = Some s"
| "get_string _ = None"

text \<open>
  The integer a JSON number of integer type denotes. It is only read on such values; the
  last equation makes the function total.
\<close>

fun int_value :: "json \<Rightarrow> int" where
  "int_value (NumberInteger v) = sint v"
| "int_value (NumberUnsigned v) = uint v"
| "int_value _ = 0"

subsection \<open>Status and the result messages\<close>

datatype StatusCode = kOk | kInvalidArgument

record Status =
  code :: StatusCode
  message :: string

definition InvalidArgumentError :: "string \<Rightarrow> Status" where
  "InvalidArgumentError msg = \<lparr>code = kInvalidArgument, message = msg\<rparr>"

definition StrCat :: "string \<Rightarrow> string \<Rightarrow> string" where
  "StrCat a b = a @ b"

text \<open>
  The two fields of \<^verbatim>\<open>igdb::SearchResult\<close> that the parser sets. The message is
  declared in \<^verbatim>\<open>proto/search_result.proto\<close>, which is not among the sources; the
  field \<open>id'\<close> holds the \<^verbatim>\<open>int\<close> that \<^verbatim>\<open>get<int>()\<close> returns.
\<close>

record SearchResult =
  id' :: int32
  title :: string

record SearchResultList =
  result :: "SearchResult list"

text \<open>
  \<^verbatim>\<open>add_result()\<close> appends a default message and returns a pointer to it; the
  setters below write through that pointer, that is, to the last entry of the list.
\<close>

definition add_result :: "SearchResultList \<Rightarrow> SearchResultList" where
  "add_result l = l\<lparr>result := result l @ [\<lparr>id' = 0, title = []\<rparr>]\<rparr>"

definition set_id :: "int32 \<Rightarrow> SearchResultList \<Rightarrow> SearchResultList" where
  "set_id i l = l\<lparr>result := butlast (result l) @ [(last (result l))\<lparr>id' := i\<rparr>]\<rparr>"

definition set_title :: "string \<Rightarrow> SearchResultList \<Rightarrow> SearchResultList" where
  "set_title s l = l\<lparr>result := butlast (result l) @ [(last (result l))\<lparr>title := s\<rparr>]\<rparr>"

subsection \<open>The parser\<close>

text \<open>
  A call either returns an \<^verbatim>\<open>absl::StatusOr\<close> (\<open>Inl\<close> a status, \<open>Inr\<close> the
  list), or leaves the function by an exception of the JSON library, which nothing in the
  function catches.
\<close>

datatype 'a outcome = Returns 'a | Throws

definition no_id_message :: string where
  "no_id_message = ''Game in response has no 'id' field or has unexpected type.'' @ [CHR 0x0A]"

definition no_title_message :: string where
  "no_title_message = ''Game in response has no 'title' field or has unexpected type.'' @ [CHR 0x0A]"

definition parse_failed_message :: string where
  "parse_failed_message = ''Failed to parse JSON response from IGDB.SearchByTitle.''"

text \<open>The body of the loop, for the values still to visit and the list built so far.\<close>

fun for_games :: "string \<Rightarrow> json list \<Rightarrow> SearchResultList \<Rightarrow> (Status + SearchResultList) outcome" where
  "for_games json_response [] search_result_list = Returns (Inr search_result_list)"
| "for_games json_response (game # games) search_result_list =
     (let search_result_list = add_result search_result_list in
      case json_find ''id'' game of
        None \<Rightarrow> Returns (Inl (InvalidArgumentError (StrCat no_id_message json_response)))
      | Some it \<Rightarrow>
          if \<not> is_number_integer it
          then Returns (Inl (InvalidArgumentError (StrCat no_id_message json_response)))
          else
            (case get_int it of
               None \<Rightarrow> Throws
             | Some i \<Rightarrow>
                 (let search_result_list = set_id i search_result_list in
                  case json_find ''name'' game of
                    None \<Rightarrow> Returns (Inl (InvalidArgumentError (StrCat no_title_message json_response)))
                  | Some it \<Rightarrow>
                      if \<not> is_string it
                      then Returns (Inl (InvalidArgumentError (StrCat no_title_message json_response)))
                      else
                        (case get_string it of
                           None \<Rightarrow> Throws
                         | Some s \<Rightarrow> for_games json_response games (set_title s search_result_list)))))"

text \<open>
  The decoder \<^verbatim>\<open>json::parse(text, nullptr, false)\<close> belongs to the library and is
  a parameter: a function from the text to the decoded value, which is \<open>Discarded\<close>
  when the text is not a JSON document (exceptions are switched off by the third
  argument).
\<close>

definition ParseSearchByTitleResponse ::
    "(string \<Rightarrow> json) \<Rightarrow> string \<Rightarrow> (Status + SearchResultList) outcome" where
  "ParseSearchByTitleResponse json_parse json_response =
     (let search_result_list = \<lparr>result = []\<rparr>;
          json_obj = json_parse json_response
      in if is_discarded json_obj
         then Returns (Inl (InvalidArgumentError parse_failed_message))
         else for_games json_response (range_for json_obj) search_result_list)"

subsection \<open>The checks of the loop, as predicates\<close>

text \<open>
  The two guards of the loop body, negated: \<open>id_ok\<close> is the negation of
  \<^verbatim>\<open>it == game.end() || !it->is_number_integer()\<close> after \<^verbatim>\<open>find("id")\<close>,
  \<open>name_ok\<close> that of \<^verbatim>\<open>it == game.end() || !it->is_string()\<close> after
  \<^verbatim>\<open>find("name")\<close>. \<open>to_result\<close> is the message one pass of the body leaves
  in the list: the default message with the two setters applied.
\<close>

definition id_ok :: "json \<Rightarrow> bool" where
  "id_ok game = (case json_find ''id'' game of None \<Rightarrow> False | Some it \<Rightarrow> is_number_integer it)"

definition name_ok :: "json \<Rightarrow> bool" where
  "name_ok game = (case json_find ''name'' game of None \<Rightarrow> False | Some it \<Rightarrow> is_string it)"

definition to_result :: "json \<Rightarrow> SearchResult" where
  "to_result game =
     \<lparr>id' = (case json_find ''id'' game of None \<Rightarrow> 0
             | Some it \<Rightarrow> (case get_int it of None \<Rightarrow> 0 | Some i \<Rightarrow> i)),
      title = (case json_find ''name'' game of None \<Rightarrow> []
             | Some it \<Rightarrow> (case get_string it of None \<Rightarrow> [] | Some s \<Rightarrow> s))\<rparr>"

subsection \<open>The error kinds of the specification\<close>

text \<open>
  The specification names two kinds of error. The code returns both as statuses with the
  code \<^verbatim>\<open>InvalidArgument\<close>; they differ by the message. \<open>MalformedDocument\<close> is
  the status of line 17, \<open>InvalidElement\<close> a status whose message starts with one of
  the two sentences of lines 27 and 35.
\<close>

definition MalformedDocument :: "Status \<Rightarrow> bool" where
  "MalformedDocument st \<longleftrightarrow> st = InvalidArgumentError parse_failed_message"

definition InvalidElement :: "Status \<Rightarrow> bool" where
  "InvalidElement st \<longleftrightarrow>
     code st = kInvalidArgument \<and>
     (take (length no_id_message) (message st) = no_id_message \<or>
      take (length no_title_message) (message st) = no_title_message)"

subsection \<open>Sample documents\<close>

text \<open>
  Texts to evaluate the parser on: the six scenarios of the specification and four more.
  \<open>sample_documents\<close> lists the value the library decodes each of them to, and
  \<open>json_parse_samples\<close> is a decoder that agrees with the library on these texts
  (\<open>scenario_4\<close> is not JSON and has no entry). The theorems below hold for every
  decoder; this one only supplies concrete inputs.
\<close>

definition scenario_1 :: string where
  \<open>scenario_1 = ''[{"id": 7, "name": "Chrono Trigger"}]''\<close>
definition scenario_2 :: string where
  \<open>scenario_2 = ''[]''\<close>
definition scenario_3 :: string where
  \<open>scenario_3 = ''[{"id": 1, "name": "A"}, {"name": "B"}]''\<close>
definition scenario_4 :: string where
  \<open>scenario_4 = ''not json''\<close>
definition scenario_5 :: string where
  \<open>scenario_5 = ''{"id": 1, "name": "A"}''\<close>
definition scenario_6 :: string where
  \<open>scenario_6 = ''[{"id": "1", "name": "A"}]''\<close>
definition wide_id :: string where
  \<open>wide_id = ''[{"id": 4294967303, "name": "A"}]''\<close>
definition no_name :: string where
  \<open>no_name = ''[{"id": 1, "name": "A"}, {"id": 2, "name": 3}]''\<close>
definition empty_game :: string where
  \<open>empty_game = ''[{"id": 1, "name": "A"}, {}, {"id": 2}]''\<close>
definition empty_game_last :: string where
  \<open>empty_game_last = ''[{"id": 1, "name": "A"}, {}]''\<close>

definition game_1A :: json where
  "game_1A = Object [(''id'', NumberUnsigned 1), (''name'', String ''A'')]"

definition sample_documents :: "(string \<times> json) list" where
  "sample_documents =
     [(scenario_1, Array [Object [(''id'', NumberUnsigned 7), (''name'', String ''Chrono Trigger'')]]),
      (scenario_2, Array []),
      (scenario_3, Array [game_1A, Object [(''name'', String ''B'')]]),
      (scenario_5, game_1A),
      (scenario_6, Array [Object [(''id'', String ''1''), (''name'', String ''A'')]]),
      (wide_id, Array [Object [(''id'', NumberUnsigned 4294967303), (''name'', String ''A'')]]),
      (no_name, Array [game_1A, Object [(''id'', NumberUnsigned 2), (''name'', NumberUnsigned 3)]]),
      (empty_game, Array [game_1A, Object [], Object [(''id'', NumberUnsigned 2)]]),
      (empty_game_last, Array [game_1A, Object []])]"

definition json_parse_samples :: "string \<Rightarrow> json" where
  "json_parse_samples text = (case map_of sample_documents text of None \<Rightarrow> Discarded | Some j \<Rightarrow> j)"

section \<open>Properties of the loop\<close>

lemma is_number_integer_get_int: "is_number_integer it \<Longrightarrow> \<exists>i. get_int it = Some i"
  by (cases it) simp_all

lemma is_string_get_string: "is_string it \<Longrightarrow> \<exists>s. get_string it = Some s"
  by (cases it) simp_all

lemma set_title_set_id_add_result:
  "set_title s (set_id i (add_result l)) = l\<lparr>result := result l @ [\<lparr>id' = i, title = s\<rparr>]\<rparr>"
  by (simp add: set_title_def set_id_def add_result_def)

lemma for_games_no_id:
  "\<not> id_ok game \<Longrightarrow>
   for_games t (game # games) l = Returns (Inl (InvalidArgumentError (no_id_message @ t)))"
  by (cases "json_find ''id'' game") (simp_all add: id_ok_def StrCat_def)

lemma for_games_no_name:
  assumes "id_ok game" "\<not> name_ok game"
  shows "for_games t (game # games) l = Returns (Inl (InvalidArgumentError (no_title_message @ t)))"
proof -
  from assms(1) obtain it where it: "json_find ''id'' game = Some it" "is_number_integer it"
    by (auto simp: id_ok_def split: option.splits)
  then obtain i where i: "get_int it = Some i"
    using is_number_integer_get_int by blast
  from assms(2) show ?thesis
    by (cases "json_find ''name'' game") (simp_all add: it i name_ok_def StrCat_def)
qed

lemma for_games_valid:
  assumes "id_ok game" "name_ok game"
  shows "for_games t (game # games) l = for_games t games (l\<lparr>result := result l @ [to_result game]\<rparr>)"
proof -
  from assms(1) obtain it where it: "json_find ''id'' game = Some it" "is_number_integer it"
    by (auto simp: id_ok_def split: option.splits)
  then obtain i where i: "get_int it = Some i"
    using is_number_integer_get_int by blast
  from assms(2) obtain it' where it': "json_find ''name'' game = Some it'" "is_string it'"
    by (auto simp: name_ok_def split: option.splits)
  then obtain s where s: "get_string it' = Some s"
    using is_string_get_string by blast
  show ?thesis
    by (simp add: it i it' s to_result_def set_title_set_id_add_result)
qed

lemma for_games_prefix:
  "\<forall>g \<in> set pre. id_ok g \<and> name_ok g \<Longrightarrow>
   for_games t (pre @ rest) l = for_games t rest (l\<lparr>result := result l @ map to_result pre\<rparr>)"
proof (induction pre arbitrary: l)
  case Nil
  show ?case by simp
next
  case (Cons g pre)
  then show ?case by (simp add: for_games_valid del: for_games.simps(2))
qed

lemma for_games_all_valid:
  "\<forall>g \<in> set games. id_ok g \<and> name_ok g \<Longrightarrow>
   for_games t games l = Returns (Inr (l\<lparr>result := result l @ map to_result games\<rparr>))"
  using for_games_prefix [of games t "[]" l] by simp

lemma for_games_first_invalid:
  assumes "\<forall>g \<in> set pre. id_ok g \<and> name_ok g" "\<not> (id_ok game \<and> name_ok game)"
  shows "for_games t (pre @ game # post) l =
     Returns (Inl (InvalidArgumentError ((if id_ok game then no_title_message else no_id_message) @ t)))"
  using assms by (auto simp: for_games_prefix for_games_no_id for_games_no_name simp del: for_games.simps(2))

lemma games_cases:
  "(\<forall>g \<in> set games. id_ok g \<and> name_ok g) \<or>
   (\<exists>pre game post. games = pre @ game # post \<and> (\<forall>g \<in> set pre. id_ok g \<and> name_ok g)
      \<and> \<not> (id_ok game \<and> name_ok game))"
proof (cases "\<exists>g \<in> set games. \<not> (id_ok g \<and> name_ok g)")
  case True
  then obtain pre game post where "games = pre @ game # post" "\<not> (id_ok game \<and> name_ok game)"
    "\<forall>g \<in> set pre. \<not> \<not> (id_ok g \<and> name_ok g)"
    using split_list_first_prop [of games "\<lambda>g. \<not> (id_ok g \<and> name_ok g)"] by blast
  then show ?thesis by auto
next
  case False
  then show ?thesis by blast
qed

lemmas sample_defs = json_parse_samples_def sample_documents_def scenario_1_def scenario_2_def
  scenario_3_def scenario_4_def scenario_5_def scenario_6_def wide_id_def no_name_def
  empty_game_def empty_game_last_def game_1A_def

lemmas parser_defs = ParseSearchByTitleResponse_def InvalidArgumentError_def StrCat_def
  add_result_def set_id_def set_title_def no_id_message_def no_title_message_def
  parse_failed_message_def

lemma sint_get_int:
  assumes "get_int it = Some i"
  shows "sint i = (int_value it + 2 ^ 31) mod 2 ^ 32 - 2 ^ 31"
proof -
  have narrow: "signed_take_bit 31 x = (x + 2 ^ 31) mod 2 ^ 32 - 2 ^ 31" for x :: int
    by (simp add: signed_take_bit_eq_take_bit_shift take_bit_eq_mod)
  show ?thesis
  proof (cases it)
    case (NumberInteger v)
    with assms have "sint i = signed_take_bit 31 (uint v)"
      by (auto simp: signed_ucast_eq)
    also have "\<dots> = signed_take_bit 31 (sint v)"
      by (simp add: sint_uint)
    finally show ?thesis using NumberInteger by (simp add: narrow)
  next
    case (NumberUnsigned v)
    with assms have "sint i = signed_take_bit 31 (uint v)"
      by (auto simp: signed_ucast_eq)
    then show ?thesis using NumberUnsigned by (simp add: narrow)
  qed (use assms in simp_all)
qed

lemma sint_get_int_representable:
  assumes "get_int it = Some i" "- (2 ^ 31) \<le> int_value it" "int_value it < 2 ^ 31"
  shows "sint i = int_value it"
proof -
  have "(int_value it + 2 ^ 31) mod 2 ^ 32 = int_value it + 2 ^ 31"
    using assms(2,3) by (simp add: mod_pos_pos_trivial)
  then show ?thesis using sint_get_int [OF assms(1)] by simp
qed

lemma to_result_id:
  "json_find ''id'' game = Some it \<Longrightarrow> is_number_integer it \<Longrightarrow>
   get_int it = Some (id' (to_result game))"
  using is_number_integer_get_int [of it] by (auto simp: to_result_def)

lemma to_result_title:
  "json_find ''name'' game = Some (String s) \<Longrightarrow> title (to_result game) = s"
  by (simp add: to_result_def)

lemma id_ok_iff:
  "id_ok game \<longleftrightarrow> (\<exists>it. json_find ''id'' game = Some it \<and> is_number_integer it)"
  by (auto simp: id_ok_def split: option.splits)

lemma name_ok_iff:
  "name_ok game \<longleftrightarrow> (\<exists>s. json_find ''name'' game = Some (String s))"
proof -
  have "is_string it \<longleftrightarrow> (\<exists>s. it = String s)" for it
    by (cases it) simp_all
  then show ?thesis
    by (auto simp: name_ok_def split: option.splits)
qed

lemma parse_not_discarded:
  "\<not> is_discarded (json_parse text) \<Longrightarrow>
   ParseSearchByTitleResponse json_parse text =
     for_games text (range_for (json_parse text)) \<lparr>result = []\<rparr>"
  by (simp add: ParseSearchByTitleResponse_def)

lemma parse_discarded:
  "is_discarded (json_parse text) \<Longrightarrow>
   ParseSearchByTitleResponse json_parse text = Returns (Inl (InvalidArgumentError parse_failed_message))"
  by (simp add: ParseSearchByTitleResponse_def)

lemma parse_all_valid:
  assumes "\<not> is_discarded (json_parse text)"
    and "\<forall>g \<in> set (range_for (json_parse text)). id_ok g \<and> name_ok g"
  shows "ParseSearchByTitleResponse json_parse text =
     Returns (Inr \<lparr>result = map to_result (range_for (json_parse text))\<rparr>)"
  using assms by (simp add: parse_not_discarded for_games_all_valid)

lemma parse_first_invalid:
  assumes "\<not> is_discarded (json_parse text)"
    and "range_for (json_parse text) = pre @ game # post"
    and "\<forall>g \<in> set pre. id_ok g \<and> name_ok g" "\<not> (id_ok game \<and> name_ok game)"
  shows "ParseSearchByTitleResponse json_parse text =
     Returns (Inl (InvalidArgumentError
       ((if id_ok game then no_title_message else no_id_message) @ text)))"
  using assms(1,2) for_games_first_invalid [OF assms(3,4)]
  by (simp add: parse_not_discarded)

lemma InvalidElement_no_id: "InvalidElement (InvalidArgumentError (no_id_message @ text))"
  by (simp add: InvalidElement_def InvalidArgumentError_def)

lemma InvalidElement_no_title: "InvalidElement (InvalidArgumentError (no_title_message @ text))"
  by (simp add: InvalidElement_def InvalidArgumentError_def)

lemma MalformedDocument_not_element:
  "\<not> MalformedDocument (InvalidArgumentError (no_id_message @ text))"
  "\<not> MalformedDocument (InvalidArgumentError (no_title_message @ text))"
  by (simp_all add: MalformedDocument_def InvalidArgumentError_def parse_failed_message_def
      no_id_message_def no_title_message_def)

lemma InvalidElement_not_parse_failed:
  "\<not> InvalidElement (InvalidArgumentError parse_failed_message)"
  by (simp add: InvalidElement_def InvalidArgumentError_def parse_failed_message_def
      no_id_message_def no_title_message_def)

lemma not_id_ok_iff:
  "\<not> id_ok game \<longleftrightarrow> json_find ''id'' game = None \<or>
     (\<exists>it. json_find ''id'' game = Some it \<and> \<not> is_number_integer it)"
  by (auto simp: id_ok_def split: option.splits)

lemma not_name_ok_iff:
  "\<not> name_ok game \<longleftrightarrow> json_find ''name'' game = None \<or>
     (\<exists>it. json_find ''name'' game = Some it \<and> \<not> is_string it)"
  by (auto simp: name_ok_def split: option.splits)

text \<open>The three ways a call ends.\<close>

lemma parse_cases:
  obtains (discarded) "is_discarded (json_parse text)"
      "ParseSearchByTitleResponse json_parse text =
         Returns (Inl (InvalidArgumentError parse_failed_message))"
  | (valid) "\<not> is_discarded (json_parse text)"
      "\<forall>g \<in> set (range_for (json_parse text)). id_ok g \<and> name_ok g"
      "ParseSearchByTitleResponse json_parse text =
         Returns (Inr \<lparr>result = map to_result (range_for (json_parse text))\<rparr>)"
  | (invalid) pre game post where "\<not> is_discarded (json_parse text)"
      "range_for (json_parse text) = pre @ game # post"
      "\<forall>g \<in> set pre. id_ok g \<and> name_ok g" "\<not> (id_ok game \<and> name_ok game)"
      "ParseSearchByTitleResponse json_parse text =
         Returns (Inl (InvalidArgumentError
           ((if id_ok game then no_title_message else no_id_message) @ text)))"
proof (cases "is_discarded (json_parse text)")
  case True
  then show ?thesis using discarded parse_discarded by blast
next
  case False
  from games_cases [of "range_for (json_parse text)"] show ?thesis
  proof (elim disjE exE conjE)
    assume "\<forall>g \<in> set (range_for (json_parse text)). id_ok g \<and> name_ok g"
    then show ?thesis using False valid parse_all_valid by blast
  next
    fix pre game post
    assume "range_for (json_parse text) = pre @ game # post"
      "\<forall>g \<in> set pre. id_ok g \<and> name_ok g" "\<not> (id_ok game \<and> name_ok game)"
    then show ?thesis using False invalid parse_first_invalid by blast
  qed
qed

section \<open>The claims\<close>

text \<open>
  C1 (as amended). When the text decodes to an array whose every element is an object
  with a member \<^verbatim>\<open>id\<close> of integer type and a member \<^verbatim>\<open>name\<close> of
  string type, the call returns a list with one entry per element, in document order.
  The title of each entry is the element's \<^verbatim>\<open>name\<close>. The id of each entry is
  the element's \<^verbatim>\<open>id\<close> narrowed to 32 bits (two's complement), which is the
  element's \<^verbatim>\<open>id\<close> itself whenever that lies between \<open>-2^31\<close> and \<open>2^31 - 1\<close>.
\<close>

theorem valid_array_parsed:
  assumes "json_parse json_response = Array games"
    and "\<forall>game \<in> set games. \<exists>m it s. game = Object m \<and>
           map_of m ''id'' = Some it \<and> is_number_integer it \<and>
           map_of m ''name'' = Some (String s)"
  shows "\<exists>rs. ParseSearchByTitleResponse json_parse json_response = Returns (Inr \<lparr>result = rs\<rparr>)
     \<and> length rs = length games
     \<and> (\<forall>k < length games. \<exists>m it s. games ! k = Object m \<and>
           map_of m ''id'' = Some it \<and> map_of m ''name'' = Some (String s) \<and>
           sint (id' (rs ! k)) = (int_value it + 2 ^ 31) mod 2 ^ 32 - 2 ^ 31 \<and>
           (- (2 ^ 31) \<le> int_value it \<and> int_value it < 2 ^ 31 \<longrightarrow>
              sint (id' (rs ! k)) = int_value it) \<and>
           title (rs ! k) = s)"
proof -
  have ok: "\<forall>g \<in> set (range_for (json_parse json_response)). id_ok g \<and> name_ok g"
    using assms by (fastforce simp: id_ok_iff name_ok_iff)
  have "ParseSearchByTitleResponse json_parse json_response =
      Returns (Inr \<lparr>result = map to_result games\<rparr>)"
    using parse_all_valid [of json_parse json_response] ok assms(1) by simp
  moreover have "\<exists>m it s. games ! k = Object m \<and>
           map_of m ''id'' = Some it \<and> map_of m ''name'' = Some (String s) \<and>
           sint (id' (map to_result games ! k)) = (int_value it + 2 ^ 31) mod 2 ^ 32 - 2 ^ 31 \<and>
           (- (2 ^ 31) \<le> int_value it \<and> int_value it < 2 ^ 31 \<longrightarrow>
              sint (id' (map to_result games ! k)) = int_value it) \<and>
           title (map to_result games ! k) = s" if k: "k < length games" for k
  proof -
    from k assms(2) obtain m it s where g: "games ! k = Object m"
      "map_of m ''id'' = Some it" "is_number_integer it" "map_of m ''name'' = Some (String s)"
      using nth_mem by blast
    have i: "get_int it = Some (id' (to_result (games ! k)))"
      using g by (simp add: to_result_id)
    have t: "title (to_result (games ! k)) = s"
      using g by (simp add: to_result_title)
    show ?thesis
      using g k t sint_get_int [OF i] sint_get_int_representable [OF i] by simp
  qed
  ultimately show ?thesis by simp
qed

theorem valid_array_parsed_witness:
  "json_parse_samples scenario_1 =
     Array [Object [(''id'', NumberUnsigned 7), (''name'', String ''Chrono Trigger'')]]
   \<and> (\<exists>rs. ParseSearchByTitleResponse json_parse_samples scenario_1 =
          Returns (Inr \<lparr>result = rs\<rparr>)
        \<and> length rs = 1 \<and> sint (id' (rs ! 0)) = 7 \<and> title (rs ! 0) = ''Chrono Trigger'')"
proof -
  have d: "json_parse_samples scenario_1 =
     Array [Object [(''id'', NumberUnsigned 7), (''name'', String ''Chrono Trigger'')]]"
    by (simp add: sample_defs)
  from valid_array_parsed [of json_parse_samples scenario_1, OF d] d show ?thesis
    by fastforce
qed

text \<open>
  C1 as stated asks for the entry's id to equal the element's \<^verbatim>\<open>id\<close>. The text
  \<^verbatim>\<open>[{"id": 4294967303, "name": "A"}]\<close> is parsed with success, and the entry's id
  is 7.
\<close>

theorem C1_id_narrowed_counterexample:
  "json_parse_samples wide_id =
     Array [Object [(''id'', NumberUnsigned 4294967303), (''name'', String ''A'')]]
   \<and> ParseSearchByTitleResponse json_parse_samples wide_id =
       Returns (Inr \<lparr>result = [\<lparr>id' = 7, title = ''A''\<rparr>]\<rparr>)
   \<and> sint (7 :: int32) \<noteq> int_value (NumberUnsigned 4294967303)"
  by (simp add: sample_defs parser_defs)

text \<open>
  C2 (as amended). The call fails with \<open>MalformedDocument\<close> exactly when the text
  does not decode (an empty string, malformed syntax); it then returns the status alone.
  A text that decodes to a value other than an array is not reported as
  \<open>MalformedDocument\<close>.
\<close>

theorem malformed_iff_discarded:
  "(\<exists>st. ParseSearchByTitleResponse json_parse json_response = Returns (Inl st)
        \<and> MalformedDocument st)
   \<longleftrightarrow> is_discarded (json_parse json_response)"
proof (cases json_parse json_response rule: parse_cases)
  case discarded
  then show ?thesis by (simp add: MalformedDocument_def)
next
  case valid
  then show ?thesis by simp
next
  case (invalid pre game post)
  then show ?thesis by (simp add: MalformedDocument_not_element)
qed

theorem malformed_iff_discarded_witness:
  "is_discarded (json_parse_samples scenario_4)
   \<and> (\<exists>st. ParseSearchByTitleResponse json_parse_samples scenario_4 = Returns (Inl st)
         \<and> MalformedDocument st)"
  using malformed_iff_discarded [of json_parse_samples scenario_4]
  by (simp add: sample_defs)

text \<open>
  C2 as stated also asks for \<open>MalformedDocument\<close> when the root is not an array. The
  text \<^verbatim>\<open>{"id": 1, "name": "A"}\<close> decodes to an object; the loop visits its two
  member values, and the first, the number 1, has no member \<^verbatim>\<open>id\<close>.
\<close>

theorem bare_object_counterexample:
  "json_parse_samples scenario_5 = Object [(''id'', NumberUnsigned 1), (''name'', String ''A'')]
   \<and> ParseSearchByTitleResponse json_parse_samples scenario_5 =
       Returns (Inl (InvalidArgumentError (StrCat no_id_message scenario_5)))
   \<and> \<not> MalformedDocument (InvalidArgumentError (StrCat no_id_message scenario_5))"
  by (simp add: sample_defs parser_defs MalformedDocument_def)

text \<open>
  C3. When the text decodes to an array and some element has no member \<^verbatim>\<open>id\<close>,
  or one that is not of integer type, the call fails with \<open>InvalidElement\<close> and returns
  no list, whatever the other elements are.
\<close>

theorem missing_id_fails:
  assumes "json_parse json_response = Array games"
    and "\<exists>game \<in> set games. json_find ''id'' game = None \<or>
           (\<exists>it. json_find ''id'' game = Some it \<and> \<not> is_number_integer it)"
  shows "\<exists>st. ParseSearchByTitleResponse json_parse json_response = Returns (Inl st)
           \<and> InvalidElement st"
proof (cases json_parse json_response rule: parse_cases)
  case discarded
  then show ?thesis using assms(1) by simp
next
  case valid
  then have "\<forall>g \<in> set games. id_ok g" using assms(1) by simp
  then show ?thesis using assms(2) not_id_ok_iff by blast
next
  case (invalid pre game post)
  then show ?thesis by (simp add: InvalidElement_no_id InvalidElement_no_title)
qed

theorem missing_id_fails_witness:
  "json_parse_samples scenario_3 = Array [game_1A, Object [(''name'', String ''B'')]]
   \<and> json_find ''id'' (Object [(''name'', String ''B'')]) = None
   \<and> (\<exists>st. ParseSearchByTitleResponse json_parse_samples scenario_3 = Returns (Inl st)
           \<and> InvalidElement st)"
proof -
  have d: "json_parse_samples scenario_3 = Array [game_1A, Object [(''name'', String ''B'')]]"
    by (simp add: sample_defs)
  from missing_id_fails [of json_parse_samples scenario_3, OF d] d show ?thesis
    by simp
qed

text \<open>
  C4. When the text decodes to an array and some element has no member
  \<^verbatim>\<open>name\<close>, or one that is not a string, the call fails with \<open>InvalidElement\<close>.
  When the call returns a list, the title of its \<open>k\<close>-th entry is the string of the
  \<open>k\<close>-th element's member \<^verbatim>\<open>name\<close>.
\<close>

theorem name_checked_and_mapped:
  assumes "json_parse json_response = Array games"
  shows "((\<exists>game \<in> set games. json_find ''name'' game = None \<or>
            (\<exists>it. json_find ''name'' game = Some it \<and> \<not> is_string it))
         \<longrightarrow> (\<exists>st. ParseSearchByTitleResponse json_parse json_response = Returns (Inl st)
                \<and> InvalidElement st))
     \<and> (\<forall>l. ParseSearchByTitleResponse json_parse json_response = Returns (Inr l)
         \<longrightarrow> length (result l) = length games \<and>
             (\<forall>k < length games.
                json_find ''name'' (games ! k) = Some (String (title (result l ! k)))))"
proof -
  have fails: "(\<exists>game \<in> set games. json_find ''name'' game = None \<or>
            (\<exists>it. json_find ''name'' game = Some it \<and> \<not> is_string it))
         \<longrightarrow> (\<exists>st. ParseSearchByTitleResponse json_parse json_response = Returns (Inl st)
                \<and> InvalidElement st)"
  proof (cases json_parse json_response rule: parse_cases)
    case discarded
    then show ?thesis using assms by simp
  next
    case valid
    then have "\<forall>g \<in> set games. name_ok g" using assms by simp
    then show ?thesis using not_name_ok_iff by blast
  next
    case (invalid pre game post)
    then show ?thesis by (simp add: InvalidElement_no_id InvalidElement_no_title)
  qed
  have mapped: "\<forall>l. ParseSearchByTitleResponse json_parse json_response = Returns (Inr l)
         \<longrightarrow> length (result l) = length games \<and>
             (\<forall>k < length games.
                json_find ''name'' (games ! k) = Some (String (title (result l ! k))))"
  proof (cases json_parse json_response rule: parse_cases)
    case discarded
    then show ?thesis by simp
  next
    case valid
    have "json_find ''name'' (games ! k) = Some (String (title (to_result (games ! k))))"
      if "k < length games" for k
    proof -
      from that valid(2) assms have "name_ok (games ! k)" by simp
      then obtain s where "json_find ''name'' (games ! k) = Some (String s)"
        using name_ok_iff by blast
      then show ?thesis by (simp add: to_result_title)
    qed
    then show ?thesis using valid(3) assms by simp
  next
    case (invalid pre game post)
    then show ?thesis by simp
  qed
  from fails mapped show ?thesis ..
qed

theorem name_checked_and_mapped_witness:
  "json_parse_samples no_name =
     Array [game_1A, Object [(''id'', NumberUnsigned 2), (''name'', NumberUnsigned 3)]]
   \<and> json_find ''name'' (Object [(''id'', NumberUnsigned 2), (''name'', NumberUnsigned 3)])
       = Some (NumberUnsigned 3)
   \<and> \<not> is_string (NumberUnsigned 3)
   \<and> (\<exists>st. ParseSearchByTitleResponse json_parse_samples no_name = Returns (Inl st)
         \<and> InvalidElement st)
   \<and> json_parse_samples scenario_1 =
     Array [Object [(''id'', NumberUnsigned 7), (''name'', String ''Chrono Trigger'')]]
   \<and> ParseSearchByTitleResponse json_parse_samples scenario_1 =
       Returns (Inr \<lparr>result = [\<lparr>id' = 7, title = ''Chrono Trigger''\<rparr>]\<rparr>)
   \<and> json_find ''name'' (Object [(''id'', NumberUnsigned 7), (''name'', String ''Chrono Trigger'')])
       = Some (String (title \<lparr>id' = 7, title = ''Chrono Trigger''\<rparr>))"
proof -
  have d: "json_parse_samples no_name =
     Array [game_1A, Object [(''id'', NumberUnsigned 2), (''name'', NumberUnsigned 3)]]"
    by (simp add: sample_defs)
  have e: "json_parse_samples scenario_1 =
     Array [Object [(''id'', NumberUnsigned 7), (''name'', String ''Chrono Trigger'')]]"
    by (simp add: sample_defs)
  have r: "ParseSearchByTitleResponse json_parse_samples scenario_1 =
       Returns (Inr \<lparr>result = [\<lparr>id' = 7, title = ''Chrono Trigger''\<rparr>]\<rparr>)"
    by (simp add: sample_defs parser_defs)
  from name_checked_and_mapped [of json_parse_samples no_name, OF d]
    name_checked_and_mapped [of json_parse_samples scenario_1, OF e] d e r
  show ?thesis by simp
qed

text \<open>
  C5. The message of an \<open>InvalidElement\<close> error is one of the two sentences followed by
  the whole input text, unchanged.
\<close>

theorem element_error_carries_text:
  assumes "ParseSearchByTitleResponse json_parse json_response = Returns (Inl st)"
    and "InvalidElement st"
  shows "message st = StrCat no_id_message json_response \<or>
         message st = StrCat no_title_message json_response"
proof (cases json_parse json_response rule: parse_cases)
  case discarded
  then show ?thesis using assms InvalidElement_not_parse_failed by simp
next
  case valid
  then show ?thesis using assms by simp
next
  case (invalid pre game post)
  then show ?thesis using assms by (auto simp: InvalidArgumentError_def StrCat_def)
qed

theorem element_error_carries_text_witness:
  "ParseSearchByTitleResponse json_parse_samples scenario_6 =
     Returns (Inl (InvalidArgumentError (no_id_message @ scenario_6)))
   \<and> InvalidElement (InvalidArgumentError (no_id_message @ scenario_6))
   \<and> (message (InvalidArgumentError (no_id_message @ scenario_6)) =
         StrCat no_id_message scenario_6 \<or>
       message (InvalidArgumentError (no_id_message @ scenario_6)) =
         StrCat no_title_message scenario_6)"
proof -
  have r: "ParseSearchByTitleResponse json_parse_samples scenario_6 =
     Returns (Inl (InvalidArgumentError (no_id_message @ scenario_6)))"
    by (simp add: sample_defs parser_defs)
  have k: "InvalidElement (InvalidArgumentError (no_id_message @ scenario_6))"
    by (simp add: InvalidElement_def InvalidArgumentError_def)
  from element_error_carries_text [OF r k] r k show ?thesis
    by simp
qed

text \<open>
  C6. A call returns either a status and no list, or a list whose entries correspond one
  to one, in order, to the values the loop visited, each of which has an \<^verbatim>\<open>id\<close>
  of integer type, the entry's id, and a \<^verbatim>\<open>name\<close> of string type, the entry's
  title.
\<close>

theorem list_complete_or_absent:
  "(\<exists>st. ParseSearchByTitleResponse json_parse json_response = Returns (Inl st)) \<or>
   (\<exists>l. ParseSearchByTitleResponse json_parse json_response = Returns (Inr l) \<and>
      list_all2 (\<lambda>game r. \<exists>it s. json_find ''id'' game = Some it \<and> is_number_integer it \<and>
                    get_int it = Some (id' r) \<and>
                    json_find ''name'' game = Some (String s) \<and> title r = s)
        (range_for (json_parse json_response)) (result l))"
proof (cases json_parse json_response rule: parse_cases)
  case discarded
  then show ?thesis by simp
next
  case valid
  have "\<exists>it s. json_find ''id'' game = Some it \<and> is_number_integer it \<and>
           get_int it = Some (id' (to_result game)) \<and>
           json_find ''name'' game = Some (String s) \<and> title (to_result game) = s"
    if "game \<in> set (range_for (json_parse json_response))" for game
  proof -
    from that valid(2) have "id_ok game" "name_ok game" by simp_all
    then obtain it s where "json_find ''id'' game = Some it" "is_number_integer it"
      "json_find ''name'' game = Some (String s)"
      using id_ok_iff name_ok_iff by blast
    then show ?thesis by (simp add: to_result_id to_result_title)
  qed
  then have "list_all2 (\<lambda>game r. \<exists>it s. json_find ''id'' game = Some it \<and> is_number_integer it \<and>
                    get_int it = Some (id' r) \<and>
                    json_find ''name'' game = Some (String s) \<and> title r = s)
        (range_for (json_parse json_response)) (map to_result (range_for (json_parse json_response)))"
    by (simp add: list_all2_conv_all_nth)
  then show ?thesis using valid(3) by simp
next
  case (invalid pre game post)
  then show ?thesis by simp
qed

theorem list_complete_or_absent_witness:
  "ParseSearchByTitleResponse json_parse_samples scenario_3 =
     Returns (Inl (InvalidArgumentError (no_id_message @ scenario_3)))
   \<and> ParseSearchByTitleResponse json_parse_samples scenario_2 = Returns (Inr \<lparr>result = []\<rparr>)"
  using list_complete_or_absent [of json_parse_samples scenario_3]
    list_complete_or_absent [of json_parse_samples scenario_2]
  by (simp add: sample_defs parser_defs)

text \<open>
  C7. No call leaves the function by an exception: the two conversions are only reached
  behind their type checks. A text that does not decode is reported by a returned
  status.
\<close>

theorem always_returns:
  "ParseSearchByTitleResponse json_parse json_response \<noteq> Throws \<and>
   (is_discarded (json_parse json_response) \<longrightarrow>
      ParseSearchByTitleResponse json_parse json_response =
        Returns (Inl (InvalidArgumentError parse_failed_message)))"
  by (cases json_parse json_response rule: parse_cases) simp_all

theorem always_returns_witness:
  "is_discarded (json_parse_samples scenario_4) \<and>
   ParseSearchByTitleResponse json_parse_samples scenario_4 \<noteq> Throws \<and>
   ParseSearchByTitleResponse json_parse_samples scenario_4 =
     Returns (Inl (InvalidArgumentError parse_failed_message))"
  using always_returns [of json_parse_samples scenario_4]
  by (simp add: sample_defs)

text \<open>
  C9. When the text decodes to an array, the error is that of the first element failing
  a check: the \<^verbatim>\<open>id\<close> error when its \<^verbatim>\<open>id\<close> check fails (also when its
  \<^verbatim>\<open>name\<close> is missing as well), the \<^verbatim>\<open>name\<close> error otherwise. The
  elements after it have no influence: a second text that decodes to the same elements up
  to that one fails with the same sentence.
\<close>

theorem first_invalid_decides:
  assumes "json_parse json_response = Array (pre @ game # post)"
    and "json_parse json_response' = Array (pre @ game # post')"
    and "\<forall>g \<in> set pre. id_ok g \<and> name_ok g"
    and "\<not> (id_ok game \<and> name_ok game)"
  shows "ParseSearchByTitleResponse json_parse json_response =
     Returns (Inl (InvalidArgumentError
       (StrCat (if id_ok game then no_title_message else no_id_message) json_response)))
   \<and> ParseSearchByTitleResponse json_parse json_response' =
     Returns (Inl (InvalidArgumentError
       (StrCat (if id_ok game then no_title_message else no_id_message) json_response')))"
  using parse_first_invalid [of json_parse json_response pre game post]
    parse_first_invalid [of json_parse json_response' pre game post'] assms
  by (simp add: StrCat_def)

theorem first_invalid_decides_witness:
  "json_parse_samples empty_game = Array ([game_1A] @ Object [] # [Object [(''id'', NumberUnsigned 2)]])
   \<and> json_parse_samples empty_game_last = Array ([game_1A] @ Object [] # [])
   \<and> id_ok game_1A \<and> name_ok game_1A
   \<and> \<not> id_ok (Object []) \<and> \<not> name_ok (Object [])
   \<and> ParseSearchByTitleResponse json_parse_samples empty_game =
       Returns (Inl (InvalidArgumentError (StrCat no_id_message empty_game)))
   \<and> ParseSearchByTitleResponse json_parse_samples empty_game_last =
       Returns (Inl (InvalidArgumentError (StrCat no_id_message empty_game_last)))"
proof -
  have d: "json_parse_samples empty_game =
      Array ([game_1A] @ Object [] # [Object [(''id'', NumberUnsigned 2)]])"
    by (simp add: sample_defs)
  have e: "json_parse_samples empty_game_last = Array ([game_1A] @ Object [] # [])"
    by (simp add: sample_defs)
  have p: "\<forall>g \<in> set [game_1A]. id_ok g \<and> name_ok g"
    by (simp add: id_ok_def name_ok_def game_1A_def)
  have g: "\<not> id_ok (Object [])" "\<not> name_ok (Object [])"
    by (simp_all add: id_ok_def name_ok_def)
  from first_invalid_decides [of json_parse_samples empty_game _ _ _ empty_game_last, OF d e p]
    d e p g
  show ?thesis by simp
qed

text \<open>
  C10. When every visited value passes both checks the call returns a list, whatever the
  magnitude of the ids: the id of each entry, read as a signed 32-bit integer, is the
  element's \<^verbatim>\<open>id\<close> reduced modulo \<open>2^32\<close> into the range from \<open>-2^31\<close> to
  \<open>2^31 - 1\<close>, and is the element's \<^verbatim>\<open>id\<close> itself when that is in the range.
\<close>

theorem id_narrowed_to_int32:
  assumes "\<not> is_discarded (json_parse json_response)"
    and "\<forall>game \<in> set (range_for (json_parse json_response)). id_ok game \<and> name_ok game"
  shows "\<exists>l. ParseSearchByTitleResponse json_parse json_response = Returns (Inr l)
     \<and> length (result l) = length (range_for (json_parse json_response))
     \<and> (\<forall>k < length (range_for (json_parse json_response)).
          \<exists>it. json_find ''id'' (range_for (json_parse json_response) ! k) = Some it \<and>
            is_number_integer it \<and>
            sint (id' (result l ! k)) = (int_value it + 2 ^ 31) mod 2 ^ 32 - 2 ^ 31 \<and>
            (- (2 ^ 31) \<le> int_value it \<and> int_value it < 2 ^ 31 \<longrightarrow>
               sint (id' (result l ! k)) = int_value it))"
proof -
  let ?games = "range_for (json_parse json_response)"
  have r: "ParseSearchByTitleResponse json_parse json_response =
      Returns (Inr \<lparr>result = map to_result ?games\<rparr>)"
    using parse_all_valid [of json_parse json_response] assms by simp
  have "\<exists>it. json_find ''id'' (?games ! k) = Some it \<and> is_number_integer it \<and>
            sint (id' (map to_result ?games ! k)) = (int_value it + 2 ^ 31) mod 2 ^ 32 - 2 ^ 31 \<and>
            (- (2 ^ 31) \<le> int_value it \<and> int_value it < 2 ^ 31 \<longrightarrow>
               sint (id' (map to_result ?games ! k)) = int_value it)"
    if k: "k < length ?games" for k
  proof -
    from k assms(2) have "id_ok (?games ! k)" by simp
    then obtain it where it: "json_find ''id'' (?games ! k) = Some it" "is_number_integer it"
      using id_ok_iff by blast
    then have i: "get_int it = Some (id' (to_result (?games ! k)))"
      by (simp add: to_result_id)
    show ?thesis
      using it k sint_get_int [OF i] sint_get_int_representable [OF i] by simp
  qed
  with r show ?thesis by simp
qed

theorem id_narrowed_to_int32_witness:
  "\<not> is_discarded (json_parse_samples wide_id)
   \<and> range_for (json_parse_samples wide_id) =
       [Object [(''id'', NumberUnsigned 4294967303), (''name'', String ''A'')]]
   \<and> id_ok (Object [(''id'', NumberUnsigned 4294967303), (''name'', String ''A'')])
   \<and> name_ok (Object [(''id'', NumberUnsigned 4294967303), (''name'', String ''A'')])
   \<and> (\<exists>l. ParseSearchByTitleResponse json_parse_samples wide_id = Returns (Inr l)
        \<and> length (result l) = 1 \<and> sint (id' (result l ! 0)) = 7)"
proof -
  have d: "\<not> is_discarded (json_parse_samples wide_id)"
    by (simp add: sample_defs)
  have g: "range_for (json_parse_samples wide_id) =
       [Object [(''id'', NumberUnsigned 4294967303), (''name'', String ''A'')]]"
    by (simp add: sample_defs)
  have v: "\<forall>game \<in> set (range_for (json_parse_samples wide_id)). id_ok game \<and> name_ok game"
    by (simp add: g id_ok_def name_ok_def)
  from id_narrowed_to_int32 [of json_parse_samples wide_id, OF d v] d v g
  show ?thesis by fastforce
qed

end
